theory Spec2Isabelle
  imports Main "HOL-Library.AList"
begin

section \<open>The deployment description of the CRM admin stack\<close>

text \<open>
  The repository declares one stack of cloud resources in two versions of
  \<^verbatim>\<open>lib/admin-infra-stack.ts\<close> and an entry point that instantiates the stack per
  environment. A framework constructor is modelled as recording the arguments the code
  passes to it, and the constructor of a bucket also as adding the statement that the
  framework adds to the policy of a bucket declared publicly readable. The checks the
  framework runs on the arguments and the provisioning of the resources are outside the
  repository and outside this model.
\<close>

subsection \<open>Strings with deferred attributes\<close>

text \<open>
  An attribute such as \<^verbatim>\<open>distribution.distributionId\<close> is known only after
  provisioning. A string built from such attributes is a list of fragments. The argument
  of an attribute is the construct id of the resource it is read from.
\<close>

datatype Attribute =
    DistributionId string
  | DistributionDomainName string
  | ProjectArn string
  | BucketArnForObjects string string
  | BucketWebsiteUrl string
  | OaiS3CanonicalUserId string
  | Account

datatype Fragment = Lit string | Tok Attribute

type_synonym CdkString = "Fragment list"

text \<open>A reference to a construct of the stack, by kind and construct id.\<close>

datatype Ref =
    BucketRef string
  | OaiRef string
  | DistributionRef string
  | ProjectRef string

subsection \<open>Plain objects\<close>

text \<open>
  A plain JavaScript object is the list of its own enumerable properties in enumeration
  order, with distinct keys. \<open>getProp\<close> is \<^verbatim>\<open>obj[key]\<close> (\<open>None\<close> is
  \<^verbatim>\<open>undefined\<close>) and \<open>setProp\<close> is \<^verbatim>\<open>obj[key] = v\<close>: the key
  \<^verbatim>\<open>__proto__\<close> reaches the prototype setter and creates no own property, a key
  that is present keeps its place, and a new key goes to the end. The end is the place
  of a new key in enumeration order when the keys arrive in the enumeration order of
  another object, as they do in the one loop that assigns properties here.
\<close>

type_synonym 'v JsObject = "(string \<times> 'v) list"

definition Object_keys :: "'v JsObject \<Rightarrow> string list" where
  "Object_keys obj = map fst obj"

definition getProp :: "'v JsObject \<Rightarrow> string \<Rightarrow> 'v option" where
  "getProp obj key = map_of obj key"

definition setProp :: "'v JsObject \<Rightarrow> string \<Rightarrow> 'v \<Rightarrow> 'v JsObject" where
  "setProp obj key v = (if key = ''__proto__'' then obj else AList.update key v obj)"

subsection \<open>The settings file\<close>

datatype Error = Error string

type_synonym DotenvParseOutput = "string JsObject"

record DotenvConfigOutput =
  error :: "Error option"
  parsed :: "DotenvParseOutput option"

record BuildEnvironmentVariable =
  varValue :: string

text \<open>
  \<^verbatim>\<open>Object.keys(env).reduce((acc, key) => { acc[key] = { value: env[key] }; return acc; }, {})\<close>.
  The keys range over the own properties of \<open>env\<close>, so \<open>env[key]\<close> is never
  \<^verbatim>\<open>undefined\<close> (lemma \<open>getProp_own_key\<close> below).
\<close>

definition convertEnvVariables :: "DotenvParseOutput \<Rightarrow> BuildEnvironmentVariable JsObject" where
  "convertEnvVariables env =
     foldl (\<lambda>acc key. case getProp env key of
                         Some v \<Rightarrow> setProp acc key \<lparr>varValue = v\<rparr>
                       | None \<Rightarrow> acc)
       [] (Object_keys env)"

text \<open>
  \<open>loadEnvFile\<close> reads \<^verbatim>\<open>../config/.env\<close> through \<^verbatim>\<open>dotenv.config\<close>; the result
  of that call is the parameter. An error object and a parsed object are both truthy.
\<close>

definition loadEnvFile :: "DotenvConfigOutput \<Rightarrow> Error + BuildEnvironmentVariable JsObject" where
  "loadEnvFile result =
     (case error result of
        Some e \<Rightarrow> Inl e
      | None \<Rightarrow>
          (case parsed result of
             None \<Rightarrow> Inl (Error ''Failed to load environment variables from .env file'')
           | Some p \<Rightarrow> Inr (convertEnvVariables p)))"

text \<open>
  What \<^verbatim>\<open>dotenv.config\<close> makes of the file. The library is not part of the
  repository; its reading of a file is modelled on a file whose text is already cut into
  the stretches that the library tells apart: a setting, with its name and its value, and
  a stretch that is no setting. A file that cannot be read gives the error of the read;
  whether the result then has a parsed map as well differs between releases of the
  library and makes no difference to \<open>loadEnvFile\<close>, which tests the error first. A file
  that can be read is parsed without an error: a stretch that is no setting is skipped,
  and each setting is assigned to the map under its name, a later one over an earlier one.
\<close>

datatype Line = Setting string string | Malformed string


definition dotenv_parse :: "Line list \<Rightarrow> DotenvParseOutput" where
  "dotenv_parse content =
     foldl (\<lambda>obj line. case line of
                         Setting key v \<Rightarrow> setProp obj key v
                       | Malformed _ \<Rightarrow> obj)
       [] content"


subsection \<open>Resource declarations\<close>

text \<open>
  The enumerations list the members of the framework's enumerations that matter here;
  the records hold the properties the code sets, under the code's names. A property
  whose name a second record, a parameter of a method or a keyword has taken carries a
  prefix (\<open>stageActions\<close>, \<open>outputValue\<close>, \<open>actionInput\<close>), and \<open>...NodeId\<close> is the
  construct id a resource is created under.
\<close>

datatype RemovalPolicy = DESTROY | RETAIN | SNAPSHOT | RETAIN_ON_UPDATE_OR_DELETE

datatype BlockPublicAccess = BLOCK_ALL | BLOCK_ACLS

datatype BucketAccessControl =
    PRIVATE | PUBLIC_READ | PUBLIC_READ_WRITE | AUTHENTICATED_READ | LOG_DELIVERY_WRITE
  | BUCKET_OWNER_READ | BUCKET_OWNER_FULL_CONTROL | AWS_EXEC_READ

datatype BucketEncryption = UNENCRYPTED | KMS_MANAGED | S3_MANAGED | KMS

datatype ViewerProtocolPolicy = HTTPS_ONLY | REDIRECT_TO_HTTPS | ALLOW_ALL

datatype PriceClass = PRICE_CLASS_100 | PRICE_CLASS_200 | PRICE_CLASS_ALL

datatype LinuxBuildImage = AMAZON_LINUX_2_5 | STANDARD_5_0

datatype Principal = CanonicalUserPrincipal CdkString | AnyPrincipal

datatype Duration = Seconds nat

datatype SecretValue = SecretsManager string

text \<open>\<^verbatim>\<open>new Artifact()\<close>: an artifact has no name; it is the object allocated.\<close>

datatype Artifact = Artifact nat

record StackProps =
  description :: "string option"

record AdminInfraStackProps = StackProps +
  environmentType :: string
  branch :: string
  pipelineName :: string
  bucketName :: string
  pipelineBucket :: string
  publicAccess :: bool
  indexFile :: string
  errorFile :: string
  githubRepoOwner :: string
  githubRepoName :: string
  githubAccessToken :: string

record PolicyStatement =
  actions :: "string list"
  resources :: "CdkString list"
  principals :: "Principal list"

record Bucket =
  bucketNodeId :: string
  websiteIndexDocument :: string
  websiteErrorDocument :: string
  publicReadAccess :: bool
  removalPolicy :: RemovalPolicy
  blockPublicAccess :: BlockPublicAccess
  accessControl :: BucketAccessControl
  encryption :: BucketEncryption
  resourcePolicy :: "PolicyStatement list"

record OriginAccessIdentity =
  oaiNodeId :: string

record S3Origin =
  originBucket :: Ref
  originAccessIdentity :: Ref

record BehaviorOptions =
  origin :: S3Origin
  viewerProtocolPolicy :: ViewerProtocolPolicy

record ErrorResponse =
  httpStatus :: nat
  responseHttpStatus :: nat
  responsePagePath :: string
  ttl :: Duration

record Distribution =
  distributionNodeId :: string
  defaultBehavior :: BehaviorOptions
  defaultRootObject :: string
  errorResponses :: "ErrorResponse list"
  priceClass :: PriceClass

text \<open>The argument of \<^verbatim>\<open>BuildSpec.fromObject\<close> is an object literal.\<close>

datatype Json = JString CdkString | JArray "Json list" | JObject "(string \<times> Json) list"

abbreviation str :: "string \<Rightarrow> Json" where
  "str s \<equiv> JString [Lit s]"

definition dquote :: "string \<Rightarrow> string" where
  "dquote s = CHR 0x22 # s @ [CHR 0x22]"

definition squote :: "string \<Rightarrow> string" where
  "squote s = CHR 0x27 # s @ [CHR 0x27]"

record BuildEnvironment =
  buildImage :: LinuxBuildImage
  environmentVariables :: "BuildEnvironmentVariable JsObject option"

record Project =
  projectNodeId :: string
  buildSpec :: Json
  environment :: BuildEnvironment
  rolePolicy :: "PolicyStatement list"

datatype Action =
    GitHubSourceAction (actionName: string) (actionOwner: string) (actionRepo: string)
      (actionBranch: string) (actionOauthToken: SecretValue) (actionOutput: Artifact)
  | CodeBuildAction (actionName: string) (actionProject: Ref) (actionInput: Artifact)
      (actionOutputs: "Artifact list")
  | S3DeployAction (actionName: string) (actionInput: Artifact) (actionBucket: Ref)

record StageProps =
  stageName :: string
  stageActions :: "Action list"

text \<open>\<^verbatim>\<open>Bucket.fromBucketName(this, id, name)\<close>: a bucket that exists already.\<close>

datatype ImportedBucket = FromBucketName string string

record Pipeline =
  pipelineNodeId :: string
  pipelinePipelineName :: string
  artifactBucket :: "ImportedBucket option"
  stages :: "StageProps list"
  dependencies :: "Ref list"

record CfnOutput =
  outputNodeId :: string
  outputValue :: CdkString
  outputDescription :: string

text \<open>
  The stack after its constructor has run: its id, its description and the constructs
  the constructor has created in it, each in its final state.
\<close>

record Stack =
  stackId :: string
  stackDescription :: "string option"
  stackBucket :: Bucket
  stackOai :: OriginAccessIdentity
  stackDistribution :: Distribution
  stackProject :: Project
  stackPipeline :: Pipeline
  stackOutputs :: "CfnOutput list"

subsection \<open>The first version of the stack\<close>

text \<open>
  A method that creates constructs in the stack returns them; a method that changes a
  construct it was given returns the construct as changed. \<open>allocated\<close> counts the
  artifacts the constructor has allocated so far.
\<close>

definition addToResourcePolicy :: "Bucket \<Rightarrow> PolicyStatement \<Rightarrow> Bucket" where
  "addToResourcePolicy b statement = b\<lparr>resourcePolicy := resourcePolicy b @ [statement]\<rparr>"

text \<open>
  \<^verbatim>\<open>new Bucket(this, id, props)\<close>. The argument is the bucket as the props declare it,
  with an empty policy. For a bucket declared with \<^verbatim>\<open>publicReadAccess\<close> the
  constructor of the framework calls \<^verbatim>\<open>grantPublicAccess\<close>, which adds to the policy
  of the bucket the statement that allows any principal to read its objects.
\<close>

definition grantPublicAccess :: "Bucket \<Rightarrow> Bucket" where
  "grantPublicAccess b =
     addToResourcePolicy b
       \<lparr> actions = [''s3:GetObject''],
         resources = [[Tok (BucketArnForObjects (bucketNodeId b) ''*'')]],
         principals = [AnyPrincipal] \<rparr>"

definition newBucket :: "Bucket \<Rightarrow> Bucket" where
  "newBucket declared = (if publicReadAccess declared then grantPublicAccess declared else declared)"

definition createWebBucket :: "'a AdminInfraStackProps_scheme \<Rightarrow> Bucket" where
  "createWebBucket props =
     newBucket
       \<lparr> bucketNodeId = bucketName props,
         websiteIndexDocument = indexFile props,
         websiteErrorDocument = errorFile props,
         publicReadAccess = publicAccess props,
         removalPolicy = DESTROY,
         blockPublicAccess = BLOCK_ACLS,
         accessControl = BUCKET_OWNER_FULL_CONTROL,
         encryption = S3_MANAGED,
         resourcePolicy = [] \<rparr>"

definition createCloudFrontDistribution ::
  "Bucket \<Rightarrow> Bucket \<times> OriginAccessIdentity \<times> Distribution" where
  "createCloudFrontDistribution bucket0 =
     (let oai = \<lparr> oaiNodeId = ''OAI'' \<rparr>;
          bucket = addToResourcePolicy bucket0
            \<lparr> actions = [''s3:GetObject''],
              resources = [[Tok (BucketArnForObjects (bucketNodeId bucket0) ''*'')]],
              principals = [CanonicalUserPrincipal [Tok (OaiS3CanonicalUserId (oaiNodeId oai))]] \<rparr>;
          s3Origin = \<lparr> originBucket = BucketRef (bucketNodeId bucket),
                       originAccessIdentity = OaiRef (oaiNodeId oai) \<rparr>;
          distribution =
            \<lparr> distributionNodeId = ''crm-admin-deployment-distribution'',
              defaultBehavior = \<lparr> origin = s3Origin, viewerProtocolPolicy = REDIRECT_TO_HTTPS \<rparr>,
              defaultRootObject = ''index.html'',
              errorResponses =
                [\<lparr> httpStatus = 404, responseHttpStatus = 404,
                   responsePagePath = ''/index.html'', ttl = Seconds 300 \<rparr>,
                 \<lparr> httpStatus = 403, responseHttpStatus = 500,
                   responsePagePath = ''/index.html'', ttl = Seconds 300 \<rparr>],
              priceClass = PRICE_CLASS_100 \<rparr>
      in (bucket, oai, distribution))"

definition newArtifact :: "nat \<Rightarrow> Artifact \<times> nat" where
  "newArtifact allocated = (Artifact allocated, Suc allocated)"

definition createSourceAction ::
  "'a AdminInfraStackProps_scheme \<Rightarrow> nat \<Rightarrow> (Artifact \<times> Action) \<times> nat" where
  "createSourceAction props allocated =
     (let (sourceOutput, allocated') = newArtifact allocated;
          sourceAction = GitHubSourceAction ''GitHub'' (githubRepoOwner props)
            (githubRepoName props) (branch props)
            (SecretsManager (githubAccessToken props)) sourceOutput
      in ((sourceOutput, sourceAction), allocated'))"

definition addToRolePolicy :: "Project \<Rightarrow> PolicyStatement \<Rightarrow> Project" where
  "addToRolePolicy p statement = p\<lparr>rolePolicy := rolePolicy p @ [statement]\<rparr>"

definition createBuildProject ::
  "DotenvConfigOutput \<Rightarrow> Distribution \<Rightarrow> nat \<Rightarrow> Error + ((Artifact \<times> Project) \<times> nat)" where
  "createBuildProject dotenvResult distribution allocated =
     (case loadEnvFile dotenvResult of
        Inl e \<Rightarrow> Inl e
      | Inr envVarianbles \<Rightarrow>
          (let (buildOutput, allocated') = newArtifact allocated;
               buildProject0 =
                 \<lparr> projectNodeId = ''crm-admin-codebuild-project'',
                   buildSpec = JObject
                     [(''version'', str ''0.2''),
                      (''phases'', JObject
                         [(''install'', JObject
                             [(''runtime-versions'', JObject [(''nodejs'', str ''latest'')]),
                              (''commands'', JArray
                                 [str (''echo '' @ dquote ''installing npm dependencies''),
                                  str ''npm install''])]),
                          (''build'', JObject
                             [(''commands'', JArray
                                 [str (''echo '' @ dquote ''building app''),
                                  str ''npm run build''])]),
                          (''post_build'', JObject
                             [(''commands'', JArray
                                 [str (''echo '' @ dquote ''creating cloudfront invalidation''),
                                  JString
                                    [Lit ''aws cloudfront create-invalidation --distribution-id '',
                                     Tok (DistributionId (distributionNodeId distribution)),
                                     Lit ('' --paths '' @ squote ''/*'')]])])]),
                      (''artifacts'', JObject
                         [(''base-directory'', str ''dist''),
                          (''files'', JArray [str ''**/*''])])],
                   environment =
                     \<lparr> buildImage = AMAZON_LINUX_2_5,
                       environmentVariables = Some envVarianbles \<rparr>,
                   rolePolicy = [] \<rparr>;
               buildProject1 = addToRolePolicy buildProject0
                 \<lparr> actions = [''cloudfront:CreateInvalidation''],
                   resources =
                     [[Lit ''arn:aws:cloudfront::'', Tok Account, Lit '':distribution/'',
                       Tok (DistributionId (distributionNodeId distribution))]],
                   principals = [] \<rparr>;
               buildProject = addToRolePolicy buildProject1
                 \<lparr> actions = [''codebuild:StartBuild'', ''codebuild:BatchGetBuilds''],
                   resources = [[Tok (ProjectArn (projectNodeId buildProject1))]],
                   principals = [] \<rparr>
           in Inr ((buildOutput, buildProject), allocated')))"

definition createBuildAction :: "Project \<Rightarrow> Artifact \<Rightarrow> Artifact \<Rightarrow> Action" where
  "createBuildAction buildProject sourceOutput buildOutput =
     CodeBuildAction ''CodeBuild'' (ProjectRef (projectNodeId buildProject))
       sourceOutput [buildOutput]"

definition createDeployAction :: "Artifact \<Rightarrow> Bucket \<Rightarrow> Action" where
  "createDeployAction buildOutput bucket =
     S3DeployAction ''DeployToS3'' buildOutput (BucketRef (bucketNodeId bucket))"

definition addDependency :: "Pipeline \<Rightarrow> Ref list \<Rightarrow> Pipeline" where
  "addDependency p deps = p\<lparr>dependencies := dependencies p @ deps\<rparr>"

definition createPipeline ::
  "Action \<Rightarrow> Action \<Rightarrow> Action \<Rightarrow> 'a AdminInfraStackProps_scheme \<Rightarrow> Bucket \<Rightarrow> Distribution
     \<Rightarrow> Pipeline" where
  "createPipeline deployAction sourceAction buildAction props bucket distribution =
     (let stages =
            [\<lparr> stageName = ''Source'', stageActions = [sourceAction] \<rparr>,
             \<lparr> stageName = ''Build'', stageActions = [buildAction] \<rparr>,
             \<lparr> stageName = ''Deploy'', stageActions = [deployAction] \<rparr>];
          codePipeline =
            \<lparr> pipelineNodeId = ''codepipeline'',
              pipelinePipelineName = pipelineName props,
              artifactBucket = None,
              stages = stages,
              dependencies = [] \<rparr>
      in addDependency codePipeline
           [BucketRef (bucketNodeId bucket), DistributionRef (distributionNodeId distribution)])"

definition outCloudfrontURL :: "Distribution \<Rightarrow> CfnOutput" where
  "outCloudfrontURL distribution =
     \<lparr> outputNodeId = ''cloudfront-web-url'',
       outputValue = [Tok (DistributionDomainName (distributionNodeId distribution))],
       outputDescription = ''cloudfront website url'' \<rparr>"

definition outS3BucketURL :: "Bucket \<Rightarrow> CfnOutput" where
  "outS3BucketURL bucket =
     \<lparr> outputNodeId = ''s3-bucket-web-url'',
       outputValue = [Tok (BucketWebsiteUrl (bucketNodeId bucket))],
       outputDescription = ''s3 bucket website url'' \<rparr>"

text \<open>
  The constructor. \<open>ident\<close> is the id the stack is created under and \<open>dotenvResult\<close>
  what reading the settings file gives while the constructor runs. An exception leaves
  the constructor without a stack.
\<close>

definition AdminInfraStack ::
  "DotenvConfigOutput \<Rightarrow> string \<Rightarrow> 'a AdminInfraStackProps_scheme \<Rightarrow> Error + Stack" where
  "AdminInfraStack dotenvResult ident props =
     (let webBucket0 = createWebBucket props;
          (webBucket, oai, distribution) = createCloudFrontDistribution webBucket0;
          ((sourceOutput, sourceAction), allocated) = createSourceAction props 0
      in case createBuildProject dotenvResult distribution allocated of
           Inl e \<Rightarrow> Inl e
         | Inr ((buildOutput, buildProject), allocated') \<Rightarrow>
             (let buildAction = createBuildAction buildProject sourceOutput buildOutput;
                  deployAction = createDeployAction buildOutput webBucket;
                  codePipeline = createPipeline deployAction sourceAction buildAction
                    props webBucket distribution
              in Inr \<lparr> stackId = ident,
                       stackDescription = description props,
                       stackBucket = webBucket,
                       stackOai = oai,
                       stackDistribution = distribution,
                       stackProject = buildProject,
                       stackPipeline = codePipeline,
                       stackOutputs = [outCloudfrontURL distribution, outS3BucketURL webBucket] \<rparr>))"

subsection \<open>The second version of the stack\<close>

text \<open>
  The second version of the file declares the same class over the props interface
  \<^verbatim>\<open>ReactDeploymentCICDStackProps\<close>, which has the fields of the first. It reads no
  settings file, so its constructor cannot fail.
\<close>

definition createWebBucket_v2 :: "'a AdminInfraStackProps_scheme \<Rightarrow> Bucket" where
  "createWebBucket_v2 props =
     newBucket
       \<lparr> bucketNodeId = bucketName props,
         websiteIndexDocument = indexFile props,
         websiteErrorDocument = errorFile props,
         publicReadAccess = publicAccess props,
         removalPolicy = DESTROY,
         blockPublicAccess = BLOCK_ACLS,
         accessControl = BUCKET_OWNER_FULL_CONTROL,
         encryption = S3_MANAGED,
         resourcePolicy = [] \<rparr>"

definition createCloudFrontDistribution_v2 ::
  "Bucket \<Rightarrow> Bucket \<times> OriginAccessIdentity \<times> Distribution" where
  "createCloudFrontDistribution_v2 bucket0 =
     (let oai = \<lparr> oaiNodeId = ''OAI'' \<rparr>;
          bucket = addToResourcePolicy bucket0
            \<lparr> actions = [''s3:GetObject''],
              resources = [[Tok (BucketArnForObjects (bucketNodeId bucket0) ''*'')]],
              principals = [CanonicalUserPrincipal [Tok (OaiS3CanonicalUserId (oaiNodeId oai))]] \<rparr>;
          s3origin = \<lparr> originBucket = BucketRef (bucketNodeId bucket),
                       originAccessIdentity = OaiRef (oaiNodeId oai) \<rparr>;
          distribution =
            \<lparr> distributionNodeId = ''react-deployment-distribution'',
              defaultBehavior = \<lparr> origin = s3origin, viewerProtocolPolicy = REDIRECT_TO_HTTPS \<rparr>,
              defaultRootObject = ''index.html'',
              errorResponses =
                [\<lparr> httpStatus = 404, responseHttpStatus = 404,
                   responsePagePath = ''/index.html'', ttl = Seconds 300 \<rparr>,
                 \<lparr> httpStatus = 403, responseHttpStatus = 500,
                   responsePagePath = ''/index.html'', ttl = Seconds 300 \<rparr>],
              priceClass = PRICE_CLASS_100 \<rparr>
      in (bucket, oai, distribution))"

definition createSourceAction_v2 ::
  "'a AdminInfraStackProps_scheme \<Rightarrow> nat \<Rightarrow> (Artifact \<times> Action) \<times> nat" where
  "createSourceAction_v2 props allocated =
     (let (sourceOutput, allocated') = newArtifact allocated;
          sourceAction = GitHubSourceAction ''GitHub_Source'' (githubRepoOwner props)
            (githubRepoName props) (branch props)
            (SecretsManager (githubAccessToken props)) sourceOutput
      in ((sourceOutput, sourceAction), allocated'))"

text \<open>
  The object literal of this version has the key \<^verbatim>\<open>arfifacts\<close>, inside
  \<^verbatim>\<open>phases\<close>, and no key \<^verbatim>\<open>artifacts\<close>.
\<close>

definition createBuildProject_v2 :: "Distribution \<Rightarrow> nat \<Rightarrow> (Artifact \<times> Project) \<times> nat" where
  "createBuildProject_v2 distribution allocated =
     (let (buildOutput, allocated') = newArtifact allocated;
          buildProject0 =
            \<lparr> projectNodeId = ''react-code-build-project'',
              buildSpec = JObject
                [(''version'', str ''0.2''),
                 (''phases'', JObject
                    [(''install'', JObject
                        [(''commands'', JArray
                            [str (''echo '' @ dquote ''installing npm dependencies''),
                             str ''npm install''])]),
                     (''build'', JObject
                        [(''commands'', JArray
                            [str (''echo '' @ dquote ''building react app''),
                             str ''npm run build''])]),
                     (''post_build'', JObject
                        [(''commands'', JArray
                            [str (''echo '' @ dquote ''creating cloudfront invalidation''),
                             JString
                               [Lit ''aws cloudfront create-invalidation --distribution-id '',
                                Tok (DistributionId (distributionNodeId distribution)),
                                Lit ('' --paths '' @ squote ''/*'')]])]),
                     (''arfifacts'', JObject
                        [(''base-directory'', str ''dist''),
                         (''files'', JArray [str ''**/*''])])])],
              environment =
                \<lparr> buildImage = STANDARD_5_0, environmentVariables = None \<rparr>,
              rolePolicy = [] \<rparr>;
          buildProject = addToRolePolicy buildProject0
            \<lparr> actions = [''codebuild:StartBuild'', ''codebuild:BatchGetBuilds''],
              resources = [[Tok (ProjectArn (projectNodeId buildProject0))]],
              principals = [] \<rparr>
      in ((buildOutput, buildProject), allocated'))"

definition createBuildAction_v2 :: "Project \<Rightarrow> Artifact \<Rightarrow> Artifact \<Rightarrow> Action" where
  "createBuildAction_v2 buildProject sourceOutput buildOutput =
     CodeBuildAction ''CodeBuild'' (ProjectRef (projectNodeId buildProject))
       sourceOutput [buildOutput]"

definition createDeployAction_v2 :: "Artifact \<Rightarrow> Bucket \<Rightarrow> Action" where
  "createDeployAction_v2 buildOutput bucket =
     S3DeployAction ''DeploytToS3'' buildOutput (BucketRef (bucketNodeId bucket))"

definition createPipeline_v2 ::
  "Action \<Rightarrow> Action \<Rightarrow> Action \<Rightarrow> 'a AdminInfraStackProps_scheme \<Rightarrow> Bucket \<Rightarrow> Distribution
     \<Rightarrow> Pipeline" where
  "createPipeline_v2 deployAction sourceAction buildAction props bucket distribution =
     (let getPipelineBucket =
            FromBucketName ''pipeline-existing-artifact-bucket'' (pipelineBucket props);
          stages =
            [\<lparr> stageName = ''Source'', stageActions = [sourceAction] \<rparr>,
             \<lparr> stageName = ''Build'', stageActions = [buildAction] \<rparr>,
             \<lparr> stageName = ''Deploy'', stageActions = [deployAction] \<rparr>];
          codePipeline =
            \<lparr> pipelineNodeId = ''admincodepipeline'',
              pipelinePipelineName = pipelineName props,
              artifactBucket = Some getPipelineBucket,
              stages = stages,
              dependencies = [] \<rparr>
      in addDependency codePipeline
           [BucketRef (bucketNodeId bucket), DistributionRef (distributionNodeId distribution)])"

definition outCloudfrontUrl_v2 :: "Distribution \<Rightarrow> CfnOutput" where
  "outCloudfrontUrl_v2 distribution =
     \<lparr> outputNodeId = ''cloudfront-web-url'',
       outputValue = [Tok (DistributionDomainName (distributionNodeId distribution))],
       outputDescription = ''cloudfront website url'' \<rparr>"

definition outS3BucketUrl_v2 :: "Bucket \<Rightarrow> CfnOutput" where
  "outS3BucketUrl_v2 bucket =
     \<lparr> outputNodeId = ''s3-bucket-url'',
       outputValue = [Tok (BucketWebsiteUrl (bucketNodeId bucket))],
       outputDescription = ''s3 bucket url'' \<rparr>"

definition AdminInfraStack_v2 :: "string \<Rightarrow> 'a AdminInfraStackProps_scheme \<Rightarrow> Stack" where
  "AdminInfraStack_v2 ident props =
     (let webBucket0 = createWebBucket_v2 props;
          (webBucket, oai, distribution) = createCloudFrontDistribution_v2 webBucket0;
          ((sourceOutput, sourceAction), allocated) = createSourceAction_v2 props 0;
          ((buildOutput, buildProject), allocated') =
            createBuildProject_v2 distribution allocated;
          buildAction = createBuildAction_v2 buildProject sourceOutput buildOutput;
          deployAction = createDeployAction_v2 buildOutput webBucket;
          codePipeline = createPipeline_v2 deployAction sourceAction buildAction
            props webBucket distribution
      in \<lparr> stackId = ident,
           stackDescription = description props,
           stackBucket = webBucket,
           stackOai = oai,
           stackDistribution = distribution,
           stackProject = buildProject,
           stackPipeline = codePipeline,
           stackOutputs = [outCloudfrontUrl_v2 distribution, outS3BucketUrl_v2 webBucket] \<rparr>)"

subsection \<open>The entry point\<close>

text \<open>
  \<^verbatim>\<open>devProps\<close> and \<^verbatim>\<open>prodProps\<close> come from a configuration module that is not part of
  the sources at hand; they are parameters. An environment configuration has the fields
  of the props and the two fields the entry point reads. The entry point imports the
  stack class by its path, which either version of the file can stand at, so the
  constructor is a parameter of the loop. The result is the list of stacks of the app
  that \<^verbatim>\<open>app.synth()\<close> is called on, or the exception that ended the program before.
\<close>

record EnvConfig = AdminInfraStackProps +
  isDeploy :: bool
  stackName :: string

fun forEachEnvConfig ::
  "(string \<Rightarrow> EnvConfig \<Rightarrow> Error + Stack) \<Rightarrow> EnvConfig list \<Rightarrow> Stack list \<Rightarrow> Error + Stack list" where
  "forEachEnvConfig new [] app = Inr app"
| "forEachEnvConfig new (envConfig # rest) app =
     (if isDeploy envConfig then
        (case new (stackName envConfig)
                (envConfig\<lparr>description :=
                   Some (''CRM Admin Infra Stack for '' @ environmentType envConfig)\<rparr>) of
           Inl e \<Rightarrow> Inl e
         | Inr stack \<Rightarrow> forEachEnvConfig new rest (app @ [stack]))
      else forEachEnvConfig new rest app)"

definition main :: "DotenvConfigOutput \<Rightarrow> EnvConfig \<Rightarrow> EnvConfig \<Rightarrow> Error + Stack list" where
  "main dotenvResult devProps prodProps =
     forEachEnvConfig (AdminInfraStack dotenvResult) [devProps, prodProps] []"

definition main_v2 :: "EnvConfig \<Rightarrow> EnvConfig \<Rightarrow> Error + Stack list" where
  "main_v2 devProps prodProps =
     forEachEnvConfig (\<lambda>ident props. Inr (AdminInfraStack_v2 ident props))
       [devProps, prodProps] []"

subsection \<open>Observing a description\<close>

text \<open>Reading an object literal along a path of keys.\<close>

fun member :: "string \<Rightarrow> Json \<Rightarrow> Json option" where
  "member key (JObject entries) = map_of entries key"
| "member key _ = None"

fun jsonAt :: "string list \<Rightarrow> Json \<Rightarrow> Json option" where
  "jsonAt [] j = Some j"
| "jsonAt (key # path) j = (case member key j of None \<Rightarrow> None | Some j' \<Rightarrow> jsonAt path j')"

text \<open>
  What the parser of the settings file can return: an object has each own key once, and
  the parser assigns strings, which never makes \<^verbatim>\<open>__proto__\<close> an own key.
\<close>

definition dotenvParsed :: "DotenvParseOutput \<Rightarrow> bool" where
  "dotenvParsed env \<longleftrightarrow>
     distinct (Object_keys env) \<and> ''__proto__'' \<notin> set (Object_keys env)"

subsection \<open>Comparing the two versions\<close>

text \<open>
  The comparison of the specification: two descriptions are the same except for cosmetic
  naming and three settings. \<open>specView\<close> blanks what the sentence excepts and keeps the
  rest. The names are the construct ids that the code writes as literals (distribution,
  build project, pipeline, outputs) with the attributes and references that carry them,
  the action names, the descriptions of the outputs and the text of an \<^verbatim>\<open>echo\<close>
  command. The settings are the build image, the artifact bucket of the pipeline and the
  environment variables of the build project.
\<close>

fun unnameAttribute :: "Attribute \<Rightarrow> Attribute" where
  "unnameAttribute (DistributionId _) = DistributionId []"
| "unnameAttribute (DistributionDomainName _) = DistributionDomainName []"
| "unnameAttribute (ProjectArn _) = ProjectArn []"
| "unnameAttribute a = a"

fun unnameFragment :: "Fragment \<Rightarrow> Fragment" where
  "unnameFragment (Lit s) = Lit s"
| "unnameFragment (Tok a) = Tok (unnameAttribute a)"

definition unnameString :: "CdkString \<Rightarrow> CdkString" where
  "unnameString s = map unnameFragment s"

fun unnameRef :: "Ref \<Rightarrow> Ref" where
  "unnameRef (DistributionRef _) = DistributionRef []"
| "unnameRef (ProjectRef _) = ProjectRef []"
| "unnameRef r = r"

fun isEcho :: "CdkString \<Rightarrow> bool" where
  "isEcho [Lit s] = (take 5 s = ''echo '')"
| "isEcho _ = False"

primrec unnameJson :: "Json \<Rightarrow> Json" where
  "unnameJson (JString s) = (if isEcho s then str ''echo'' else JString (unnameString s))"
| "unnameJson (JArray items) = JArray (map unnameJson items)"
| "unnameJson (JObject entries) = JObject (map (map_prod id unnameJson) entries)"

definition unnameStatement :: "PolicyStatement \<Rightarrow> PolicyStatement" where
  "unnameStatement st = st\<lparr>resources := map unnameString (resources st)\<rparr>"

fun unnameAction :: "Action \<Rightarrow> Action" where
  "unnameAction (GitHubSourceAction _ ownr rep br token out) =
     GitHubSourceAction [] ownr rep br token out"
| "unnameAction (CodeBuildAction _ proj inp outs) =
     CodeBuildAction [] (unnameRef proj) inp outs"
| "unnameAction (S3DeployAction _ inp target) = S3DeployAction [] inp (unnameRef target)"

definition unnameStage :: "StageProps \<Rightarrow> StageProps" where
  "unnameStage st = st\<lparr>stageActions := map unnameAction (stageActions st)\<rparr>"

definition unnameOutput :: "CfnOutput \<Rightarrow> CfnOutput" where
  "unnameOutput out =
     \<lparr> outputNodeId = [], outputValue = unnameString (outputValue out),
       outputDescription = [] \<rparr>"

definition specViewProject :: "Project \<Rightarrow> Project" where
  "specViewProject p =
     \<lparr> projectNodeId = [],
       buildSpec = unnameJson (buildSpec p),
       environment = \<lparr> buildImage = STANDARD_5_0, environmentVariables = None \<rparr>,
       rolePolicy = map unnameStatement (rolePolicy p) \<rparr>"

definition specViewPipeline :: "Pipeline \<Rightarrow> Pipeline" where
  "specViewPipeline p =
     p\<lparr> pipelineNodeId := [],
        artifactBucket := None,
        stages := map unnameStage (stages p),
        dependencies := map unnameRef (dependencies p) \<rparr>"

definition specView :: "Stack \<Rightarrow> Stack" where
  "specView s =
     s\<lparr> stackDistribution := (stackDistribution s)\<lparr>distributionNodeId := []\<rparr>,
        stackProject := specViewProject (stackProject s),
        stackPipeline := specViewPipeline (stackPipeline s),
        stackOutputs := map unnameOutput (stackOutputs s) \<rparr>"

text \<open>
  The comparison that holds. Besides what \<open>specView\<close> blanks, \<open>designView\<close> blanks the
  \<^verbatim>\<open>runtime-versions\<close> entry of the install phase, and it leaves out of the comparison
  the declaration of the artifacts of the build specification, under either spelling of
  its key, and the policy statements for \<^verbatim>\<open>cloudfront:CreateInvalidation\<close>.
\<close>

fun dropKey :: "string \<Rightarrow> Json \<Rightarrow> Json" where
  "dropKey key (JObject entries) = JObject (filter (\<lambda>entry. fst entry \<noteq> key) entries)"
| "dropKey key j = j"

fun atKey :: "string \<Rightarrow> (Json \<Rightarrow> Json) \<Rightarrow> Json \<Rightarrow> Json" where
  "atKey key f (JObject entries) =
     JObject (map (\<lambda>entry. if fst entry = key then (fst entry, f (snd entry)) else entry) entries)"
| "atKey key f j = j"

definition designViewBuildSpec :: "Json \<Rightarrow> Json" where
  "designViewBuildSpec spec =
     atKey ''phases''
       (\<lambda>phases. dropKey ''arfifacts''
          (atKey ''install'' (dropKey ''runtime-versions'') phases))
       (dropKey ''artifacts'' spec)"

definition designViewProject :: "Project \<Rightarrow> Project" where
  "designViewProject p =
     p\<lparr> buildSpec := designViewBuildSpec (buildSpec p),
        rolePolicy :=
          filter (\<lambda>st. ''cloudfront:CreateInvalidation'' \<notin> set (actions st)) (rolePolicy p) \<rparr>"

definition designView :: "Stack \<Rightarrow> Stack" where
  "designView s = specView (s\<lparr>stackProject := designViewProject (stackProject s)\<rparr>)"

subsection \<open>Sample inputs\<close>

definition sampleEnvConfig :: EnvConfig where
  "sampleEnvConfig =
     \<lparr> description = None,
       environmentType = ''dev'',
       branch = ''develop'',
       pipelineName = ''crm-admin-dev'',
       bucketName = ''crm-admin-web-dev'',
       pipelineBucket = ''crm-admin-artifacts'',
       publicAccess = True,
       indexFile = ''index.html'',
       errorFile = ''index.html'',
       githubRepoOwner = ''miguel-merlin'',
       githubRepoName = ''CRM-Admin'',
       githubAccessToken = ''github-token'',
       isDeploy = True,
       stackName = ''CrmAdminDev'' \<rparr>"

definition sampleProdConfig :: EnvConfig where
  "sampleProdConfig =
     sampleEnvConfig
       \<lparr> environmentType := ''prod'',
         branch := ''main'',
         pipelineName := ''crm-admin-prod'',
         bucketName := ''crm-admin-web-prod'',
         publicAccess := False,
         isDeploy := False,
         stackName := ''CrmAdminProd'' \<rparr>"

definition sampleDotenv :: DotenvConfigOutput where
  "sampleDotenv =
     \<lparr> error = None,
       parsed = Some [(''VITE_API_URL'', ''https://api.example.com''), (''VITE_STAGE'', ''dev'')] \<rparr>"

definition missingDotenv :: DotenvConfigOutput where
  "missingDotenv = \<lparr> error = Some (Error ''ENOENT: no such file or directory''), parsed = None \<rparr>"



definition sampleStack :: Stack where
  "sampleStack = projr (AdminInfraStack sampleDotenv ''CrmAdminDev'' sampleEnvConfig)"

definition sampleApp :: "Stack list" where
  "sampleApp = projr (main sampleDotenv sampleEnvConfig sampleProdConfig)"

section \<open>Properties\<close>

subsection \<open>Shared facts\<close>

lemmas shared_defs = addToResourcePolicy_def grantPublicAccess_def newBucket_def
  newArtifact_def addToRolePolicy_def addDependency_def

lemmas v1_defs = AdminInfraStack_def createWebBucket_def createCloudFrontDistribution_def
  createSourceAction_def createBuildProject_def createBuildAction_def
  createDeployAction_def createPipeline_def outCloudfrontURL_def outS3BucketURL_def

lemmas v2_defs = AdminInfraStack_v2_def createWebBucket_v2_def
  createCloudFrontDistribution_v2_def createSourceAction_v2_def createBuildProject_v2_def
  createBuildAction_v2_def createDeployAction_v2_def createPipeline_v2_def
  outCloudfrontUrl_v2_def outS3BucketUrl_v2_def

lemma getProp_own_key: "key \<in> set (Object_keys env) \<Longrightarrow> getProp env key \<noteq> None"
  by (simp add: Object_keys_def getProp_def map_of_eq_None_iff)

text \<open>The first version yields a stack exactly when the settings file loads.\<close>

lemma AdminInfraStack_isl: "isl (AdminInfraStack r ident props) = isl (loadEnvFile r)"
  by (auto simp: v1_defs shared_defs Let_def split: sum.splits)

lemma loadEnvFile_sample: "\<not> isl (loadEnvFile sampleDotenv)"
  by (simp add: loadEnvFile_def sampleDotenv_def)

lemma sample_run:
  "AdminInfraStack sampleDotenv ''CrmAdminDev'' sampleEnvConfig = Inr sampleStack"
proof -
  have "\<not> isl (AdminInfraStack sampleDotenv ''CrmAdminDev'' sampleEnvConfig)"
    by (simp add: AdminInfraStack_isl loadEnvFile_sample)
  then show ?thesis by (simp add: sampleStack_def)
qed


lemma AdminInfraStack_Inl_iff:
  "AdminInfraStack r ident props = Inl e \<longleftrightarrow> loadEnvFile r = Inl e"
  by (auto simp: v1_defs shared_defs Let_def split: sum.splits)

lemma AdminInfraStack_stackId: "AdminInfraStack r ident props = Inr s \<Longrightarrow> stackId s = ident"
  by (auto simp: v1_defs shared_defs Let_def split: sum.splits)

subsection \<open>The error responses of the distribution\<close>

text \<open>
  C3. In both versions the error responses of the distribution are two entries, for the
  statuses 404 and 403 in this order, and each serves the root document
  \<^verbatim>\<open>/index.html\<close>. This holds for every stack the first version yields and for every
  stack of the second version.
\<close>

theorem error_responses_serve_root_document:
  "(AdminInfraStack r ident props = Inr s \<longrightarrow>
      map (\<lambda>e. (httpStatus e, responsePagePath e)) (errorResponses (stackDistribution s))
        = [(404, ''/index.html''), (403, ''/index.html'')])
   \<and> map (\<lambda>e. (httpStatus e, responsePagePath e))
         (errorResponses (stackDistribution (AdminInfraStack_v2 ident props)))
        = [(404, ''/index.html''), (403, ''/index.html'')]"
  by (auto simp: v1_defs v2_defs shared_defs Let_def split: sum.splits)

theorem error_responses_serve_root_document_witness:
  "AdminInfraStack sampleDotenv ''CrmAdminDev'' sampleEnvConfig = Inr sampleStack
   \<and> map (\<lambda>e. (httpStatus e, responsePagePath e)) (errorResponses (stackDistribution sampleStack))
        = [(404, ''/index.html''), (403, ''/index.html'')]"
  using error_responses_serve_root_document
    [of sampleDotenv "''CrmAdminDev''" sampleEnvConfig sampleStack] sample_run
  by simp

subsection \<open>The stages of the pipeline\<close>

text \<open>
  C5. In both versions the pipeline has exactly the three stages Source, Build and
  Deploy, in this order, each with one action. The artifact that the source action
  outputs is the input of the build action; the one artifact that the build action
  outputs is another artifact and is the input of the deploy action; the deploy action
  targets the web bucket of the stack.
\<close>

theorem pipeline_three_stages_wired:
  "(AdminInfraStack r ident props = Inr s \<longrightarrow>
      (\<exists>sourceOutput buildOutput. sourceOutput \<noteq> buildOutput \<and>
        stages (stackPipeline s) =
          [\<lparr> stageName = ''Source'', stageActions =
               [GitHubSourceAction ''GitHub'' (githubRepoOwner props) (githubRepoName props)
                  (branch props) (SecretsManager (githubAccessToken props)) sourceOutput] \<rparr>,
           \<lparr> stageName = ''Build'', stageActions =
               [CodeBuildAction ''CodeBuild'' (ProjectRef (projectNodeId (stackProject s)))
                  sourceOutput [buildOutput]] \<rparr>,
           \<lparr> stageName = ''Deploy'', stageActions =
               [S3DeployAction ''DeployToS3'' buildOutput
                  (BucketRef (bucketNodeId (stackBucket s)))] \<rparr>]))
   \<and> (let s2 = AdminInfraStack_v2 ident props in
      (\<exists>sourceOutput buildOutput. sourceOutput \<noteq> buildOutput \<and>
        stages (stackPipeline s2) =
          [\<lparr> stageName = ''Source'', stageActions =
               [GitHubSourceAction ''GitHub_Source'' (githubRepoOwner props)
                  (githubRepoName props) (branch props)
                  (SecretsManager (githubAccessToken props)) sourceOutput] \<rparr>,
           \<lparr> stageName = ''Build'', stageActions =
               [CodeBuildAction ''CodeBuild'' (ProjectRef (projectNodeId (stackProject s2)))
                  sourceOutput [buildOutput]] \<rparr>,
           \<lparr> stageName = ''Deploy'', stageActions =
               [S3DeployAction ''DeploytToS3'' buildOutput
                  (BucketRef (bucketNodeId (stackBucket s2)))] \<rparr>]))"
  by (auto simp: v1_defs v2_defs shared_defs Let_def split: sum.splits)

theorem pipeline_three_stages_wired_witness:
  "AdminInfraStack sampleDotenv ''CrmAdminDev'' sampleEnvConfig = Inr sampleStack
   \<and> map stageName (stages (stackPipeline sampleStack)) = [''Source'', ''Build'', ''Deploy'']
   \<and> map (map actionName \<circ> stageActions) (stages (stackPipeline sampleStack))
        = [[''GitHub''], [''CodeBuild''], [''DeployToS3'']]"
  using pipeline_three_stages_wired
    [of sampleDotenv "''CrmAdminDev''" sampleEnvConfig sampleStack] sample_run
  by auto

subsection \<open>Dependencies between the resources\<close>

text \<open>
  C6. In both versions the origin of the distribution is the web bucket of the stack,
  and the dependencies declared on the pipeline are that bucket and the distribution of
  the stack.
\<close>

theorem description_internally_consistent:
  "(AdminInfraStack r ident props = Inr s \<longrightarrow>
      originBucket (origin (defaultBehavior (stackDistribution s)))
        = BucketRef (bucketNodeId (stackBucket s))
      \<and> dependencies (stackPipeline s)
        = [BucketRef (bucketNodeId (stackBucket s)),
           DistributionRef (distributionNodeId (stackDistribution s))])
   \<and> (let s2 = AdminInfraStack_v2 ident props in
      originBucket (origin (defaultBehavior (stackDistribution s2)))
        = BucketRef (bucketNodeId (stackBucket s2))
      \<and> dependencies (stackPipeline s2)
        = [BucketRef (bucketNodeId (stackBucket s2)),
           DistributionRef (distributionNodeId (stackDistribution s2))])"
  by (auto simp: v1_defs v2_defs shared_defs Let_def split: sum.splits)

theorem description_internally_consistent_witness:
  "AdminInfraStack sampleDotenv ''CrmAdminDev'' sampleEnvConfig = Inr sampleStack
   \<and> originBucket (origin (defaultBehavior (stackDistribution sampleStack)))
        = BucketRef (bucketNodeId (stackBucket sampleStack))
   \<and> dependencies (stackPipeline sampleStack)
        = [BucketRef (bucketNodeId (stackBucket sampleStack)),
           DistributionRef (distributionNodeId (stackDistribution sampleStack))]"
  using description_internally_consistent
    [of sampleDotenv "''CrmAdminDev''" sampleEnvConfig sampleStack] sample_run
  by simp

subsection \<open>The removal policy of the web bucket\<close>

text \<open>
  C10. In both versions the web bucket is declared with the removal policy
  \<^verbatim>\<open>DESTROY\<close>, whatever the props are: for the bucket that the method creates and for
  the bucket of every stack.
\<close>

theorem web_bucket_removal_policy_destroy:
  "(AdminInfraStack r ident props = Inr s \<longrightarrow> removalPolicy (stackBucket s) = DESTROY)
   \<and> removalPolicy (stackBucket (AdminInfraStack_v2 ident props)) = DESTROY
   \<and> removalPolicy (createWebBucket props) = DESTROY
   \<and> removalPolicy (createWebBucket_v2 props) = DESTROY"
  by (auto simp: v1_defs v2_defs shared_defs Let_def split: sum.splits)

theorem web_bucket_removal_policy_destroy_witness:
  "AdminInfraStack sampleDotenv ''CrmAdminDev'' sampleEnvConfig = Inr sampleStack
   \<and> removalPolicy (stackBucket sampleStack) = DESTROY"
  using web_bucket_removal_policy_destroy
    [of sampleDotenv "''CrmAdminDev''" sampleEnvConfig sampleStack] sample_run
  by simp

subsection \<open>A settings file that does not load\<close>








subsection \<open>The settings reach the build environment unchanged\<close>

lemma update_fresh: "key \<notin> fst ` set al \<Longrightarrow> AList.update key v al = al @ [(key, v)]"
  by (induction al) auto

lemma setProp_fresh:
  "key \<noteq> ''__proto__'' \<Longrightarrow> key \<notin> fst ` set obj \<Longrightarrow> setProp obj key v = obj @ [(key, v)]"
  by (simp add: setProp_def update_fresh)

text \<open>
  The loop, started after the entries \<open>pre\<close> have been converted, converts the remaining
  entries one by one: each key is new to the accumulator, so its entry goes to the end.
\<close>

lemma convert_fold:
  assumes "env = pre @ rest" and "distinct (map fst env)" and "''__proto__'' \<notin> fst ` set env"
  shows "foldl (\<lambda>acc key. case getProp env key of
                         Some v \<Rightarrow> setProp acc key \<lparr>varValue = v\<rparr>
                       | None \<Rightarrow> acc)
           (map (\<lambda>entry. (fst entry, \<lparr>varValue = snd entry\<rparr>)) pre) (map fst rest)
         = map (\<lambda>entry. (fst entry, \<lparr>varValue = snd entry\<rparr>)) env"
  using assms
proof (induction rest arbitrary: pre)
  case Nil
  then show ?case by simp
next
  case (Cons entry rest)
  obtain k v where entry: "entry = (k, v)" by (cases entry)
  have look: "getProp env k = Some v"
    unfolding getProp_def using Cons.prems entry by (intro map_of_is_SomeI) simp_all
  have notproto: "k \<noteq> ''__proto__''"
    using Cons.prems entry by auto
  have fresh: "k \<notin> fst ` set (map (\<lambda>entry. (fst entry, \<lparr>varValue = snd entry\<rparr>)) pre)"
    using Cons.prems entry by (auto simp: image_iff)
  have step: "setProp (map (\<lambda>entry. (fst entry, \<lparr>varValue = snd entry\<rparr>)) pre) k \<lparr>varValue = v\<rparr>
              = map (\<lambda>entry. (fst entry, \<lparr>varValue = snd entry\<rparr>)) (pre @ [entry])"
    using setProp_fresh [OF notproto fresh] entry by simp
  have "env = (pre @ [entry]) @ rest" using Cons.prems by simp
  from Cons.IH [OF this Cons.prems(2) Cons.prems(3)] show ?case
    using look step entry by simp
qed

lemma convertEnvVariables_map:
  "dotenvParsed env \<Longrightarrow>
     convertEnvVariables env = map (\<lambda>entry. (fst entry, \<lparr>varValue = snd entry\<rparr>)) env"
  using convert_fold [of env "[]" env]
  by (simp add: convertEnvVariables_def dotenvParsed_def Object_keys_def)

text \<open>Every map that the reading of a file gives is one that the parser can return.\<close>

lemma dotenv_parse_fold:
  "distinct (map fst obj) \<Longrightarrow> ''__proto__'' \<notin> fst ` set obj \<Longrightarrow>
     distinct (map fst (foldl (\<lambda>obj line. case line of
                                  Setting key v \<Rightarrow> setProp obj key v
                                | Malformed _ \<Rightarrow> obj) obj content))
     \<and> ''__proto__'' \<notin> fst ` set (foldl (\<lambda>obj line. case line of
                                  Setting key v \<Rightarrow> setProp obj key v
                                | Malformed _ \<Rightarrow> obj) obj content)"
proof (induction content arbitrary: obj)
  case Nil
  then show ?case by simp
next
  case (Cons line content)
  show ?case
  proof (cases line)
    case (Setting key v)
    have "distinct (map fst (setProp obj key v))"
      using Cons.prems by (simp add: setProp_def distinct_update)
    moreover have "''__proto__'' \<notin> fst ` set (setProp obj key v)"
      using Cons.prems by (auto simp: setProp_def dom_update)
    ultimately show ?thesis
      using Cons.IH [of "setProp obj key v"] Setting by simp
  next
    case (Malformed junk)
    then show ?thesis using Cons.IH [OF Cons.prems] by simp
  qed
qed

lemma dotenvParsed_dotenv_parse: "dotenvParsed (dotenv_parse content)"
  using dotenv_parse_fold [of "[]" content]
  by (simp add: dotenvParsed_def dotenv_parse_def Object_keys_def)

lemma AdminInfraStack_environmentVariables:
  "AdminInfraStack r ident props = Inr s \<Longrightarrow> loadEnvFile r = Inr vars \<Longrightarrow>
     environmentVariables (environment (stackProject s)) = Some vars"
  by (auto simp: v1_defs shared_defs Let_def split: sum.splits)

text \<open>
  C7. For every settings map that the parser can return, \<open>convertEnvVariables\<close> yields
  an object with the same keys, in the same order, and under each key the variable whose
  value is the setting's value; and the build project of a stack of the first version
  has exactly this object as its environment variables.
\<close>

theorem settings_round_trip:
  assumes "dotenvParsed env"
  shows "Object_keys (convertEnvVariables env) = Object_keys env
    \<and> (\<forall>key. getProp (convertEnvVariables env) key
               = map_option (\<lambda>v. \<lparr>varValue = v\<rparr>) (getProp env key))
    \<and> (error r = None \<and> parsed r = Some env \<and> AdminInfraStack r ident props = Inr s \<longrightarrow>
         environmentVariables (environment (stackProject s)) = Some (convertEnvVariables env))"
proof -
  note m = convertEnvVariables_map [OF assms]
  have keys: "Object_keys (convertEnvVariables env) = Object_keys env"
    by (simp add: m Object_keys_def comp_def)
  have vals: "getProp (convertEnvVariables env) key
               = map_option (\<lambda>v. \<lparr>varValue = v\<rparr>) (getProp env key)" for key
    unfolding m getProp_def by (induction env) auto
  have inject: "environmentVariables (environment (stackProject s)) = Some (convertEnvVariables env)"
    if "error r = None" "parsed r = Some env" "AdminInfraStack r ident props = Inr s"
    using that AdminInfraStack_environmentVariables [of r ident props s "convertEnvVariables env"]
    by (simp add: loadEnvFile_def)
  from keys vals inject show ?thesis by blast
qed

lemma dotenvParsed_sample:
  "dotenvParsed [(''VITE_API_URL'', ''https://api.example.com''), (''VITE_STAGE'', ''dev'')]"
  by (simp add: dotenvParsed_def Object_keys_def)

theorem settings_round_trip_witness:
  "dotenvParsed [(''VITE_API_URL'', ''https://api.example.com''), (''VITE_STAGE'', ''dev'')]
   \<and> Object_keys (convertEnvVariables
         [(''VITE_API_URL'', ''https://api.example.com''), (''VITE_STAGE'', ''dev'')])
       = [''VITE_API_URL'', ''VITE_STAGE'']
   \<and> getProp (convertEnvVariables
         [(''VITE_API_URL'', ''https://api.example.com''), (''VITE_STAGE'', ''dev'')])
         ''VITE_STAGE'' = Some \<lparr>varValue = ''dev''\<rparr>
   \<and> environmentVariables (environment (stackProject sampleStack))
       = Some (convertEnvVariables
           [(''VITE_API_URL'', ''https://api.example.com''), (''VITE_STAGE'', ''dev'')])"
  using settings_round_trip [OF dotenvParsed_sample,
      of sampleDotenv "''CrmAdminDev''" sampleEnvConfig sampleStack]
    dotenvParsed_sample sample_run
  by (simp add: sampleDotenv_def Object_keys_def getProp_def)

subsection \<open>The entry point\<close>

text \<open>
  C8. The app that the entry point synthesizes holds one stack for each environment
  configuration whose \<open>isDeploy\<close> flag is true, in the order of the configurations,
  created under the configuration's stack name from the configuration with the
  description added, and no stack for a configuration whose flag is false. With the
  second version this is the app in every case; with the first version it is the app
  whenever the entry point returns one, which it does when the settings file loads.
  With no environment to deploy the app is empty, whatever the settings file.
\<close>

theorem stacks_follow_isDeploy:
  "main_v2 devProps prodProps =
     Inr (map (\<lambda>c. AdminInfraStack_v2 (stackName c)
                 (c\<lparr>description := Some (''CRM Admin Infra Stack for '' @ environmentType c)\<rparr>))
            (filter isDeploy [devProps, prodProps]))
   \<and> (main r devProps prodProps = Inr app \<longrightarrow>
        map Inr app =
          map (\<lambda>c. AdminInfraStack r (stackName c)
                 (c\<lparr>description := Some (''CRM Admin Infra Stack for '' @ environmentType c)\<rparr>))
            (filter isDeploy [devProps, prodProps])
        \<and> map stackId app = map stackName (filter isDeploy [devProps, prodProps]))
   \<and> (\<not> isl (loadEnvFile r) \<longrightarrow> \<not> isl (main r devProps prodProps))
   \<and> (\<not> isDeploy devProps \<and> \<not> isDeploy prodProps \<longrightarrow> main r devProps prodProps = Inr [])"
proof -
  have a: "main_v2 devProps prodProps =
     Inr (map (\<lambda>c. AdminInfraStack_v2 (stackName c)
                 (c\<lparr>description := Some (''CRM Admin Infra Stack for '' @ environmentType c)\<rparr>))
            (filter isDeploy [devProps, prodProps]))"
    by (simp add: main_v2_def)
  have b: "map Inr app =
          map (\<lambda>c. AdminInfraStack r (stackName c)
                 (c\<lparr>description := Some (''CRM Admin Infra Stack for '' @ environmentType c)\<rparr>))
            (filter isDeploy [devProps, prodProps])
        \<and> map stackId app = map stackName (filter isDeploy [devProps, prodProps])"
    if "main r devProps prodProps = Inr app"
    using that
    by (auto simp: main_def AdminInfraStack_stackId split: if_splits sum.splits)
  have c: "\<not> isl (main r devProps prodProps)" if "\<not> isl (loadEnvFile r)"
    using that by (auto simp: main_def AdminInfraStack_Inl_iff split: sum.splits)
  have d: "main r devProps prodProps = Inr []" if "\<not> isDeploy devProps" "\<not> isDeploy prodProps"
    using that by (simp add: main_def)
  from a b c d show ?thesis by blast
qed

theorem stacks_follow_isDeploy_witness:
  "main sampleDotenv sampleEnvConfig sampleProdConfig = Inr sampleApp
   \<and> map stackId sampleApp = [''CrmAdminDev'']
   \<and> main missingDotenv sampleProdConfig sampleProdConfig = Inr []"
proof -
  have run: "\<not> isl (main sampleDotenv sampleEnvConfig sampleProdConfig)"
    using stacks_follow_isDeploy [of sampleEnvConfig sampleProdConfig sampleDotenv sampleApp]
      loadEnvFile_sample by blast
  then have app: "main sampleDotenv sampleEnvConfig sampleProdConfig = Inr sampleApp"
    by (simp add: sampleApp_def)
  have ids: "map stackId sampleApp = [''CrmAdminDev'']"
    using stacks_follow_isDeploy [of sampleEnvConfig sampleProdConfig sampleDotenv sampleApp] app
    by (simp add: sampleEnvConfig_def sampleProdConfig_def)
  have none: "main missingDotenv sampleProdConfig sampleProdConfig = Inr []"
    using stacks_follow_isDeploy [of sampleProdConfig sampleProdConfig missingDotenv "[]"]
    by (simp add: sampleEnvConfig_def sampleProdConfig_def)
  from app ids none show ?thesis by simp
qed

subsection \<open>The permission to invalidate the cache\<close>

text \<open>
  C9. In the first version the role policy of the build project has two statements: one
  allows \<^verbatim>\<open>cloudfront:CreateInvalidation\<close> on one resource, the ARN of the
  distribution of this stack, and the other allows the two build actions on the project
  itself. In the second version the role policy has the second statement only, so that
  nothing allows an invalidation, while the \<^verbatim>\<open>post_build\<close> commands of its build
  specification run an invalidation of the distribution of the stack.
\<close>

theorem create_invalidation_grant:
  "(AdminInfraStack r ident props = Inr s \<longrightarrow>
      rolePolicy (stackProject s) =
        [\<lparr> actions = [''cloudfront:CreateInvalidation''],
           resources =
             [[Lit ''arn:aws:cloudfront::'', Tok Account, Lit '':distribution/'',
               Tok (DistributionId (distributionNodeId (stackDistribution s)))]],
           principals = [] \<rparr>,
         \<lparr> actions = [''codebuild:StartBuild'', ''codebuild:BatchGetBuilds''],
           resources = [[Tok (ProjectArn (projectNodeId (stackProject s)))]],
           principals = [] \<rparr>])
   \<and> (let s2 = AdminInfraStack_v2 ident props in
        rolePolicy (stackProject s2) =
          [\<lparr> actions = [''codebuild:StartBuild'', ''codebuild:BatchGetBuilds''],
             resources = [[Tok (ProjectArn (projectNodeId (stackProject s2)))]],
             principals = [] \<rparr>]
        \<and> jsonAt [''phases'', ''post_build'', ''commands''] (buildSpec (stackProject s2)) =
            Some (JArray
              [str (''echo '' @ dquote ''creating cloudfront invalidation''),
               JString
                 [Lit ''aws cloudfront create-invalidation --distribution-id '',
                  Tok (DistributionId (distributionNodeId (stackDistribution s2))),
                  Lit ('' --paths '' @ squote ''/*'')]]))"
  by (auto simp: v1_defs v2_defs shared_defs Let_def split: sum.splits)

theorem create_invalidation_grant_witness:
  "AdminInfraStack sampleDotenv ''CrmAdminDev'' sampleEnvConfig = Inr sampleStack
   \<and> map actions (rolePolicy (stackProject sampleStack)) =
        [[''cloudfront:CreateInvalidation''], [''codebuild:StartBuild'', ''codebuild:BatchGetBuilds'']]
   \<and> map resources (rolePolicy (stackProject sampleStack)) =
        [[[Lit ''arn:aws:cloudfront::'', Tok Account, Lit '':distribution/'',
           Tok (DistributionId (distributionNodeId (stackDistribution sampleStack)))]],
         [[Tok (ProjectArn (projectNodeId (stackProject sampleStack)))]]]"
  using create_invalidation_grant
    [of sampleDotenv "''CrmAdminDev''" sampleEnvConfig sampleStack] sample_run
  by simp

subsection \<open>Who may read the web bucket\<close>

lemma AdminInfraStack_bucket:
  "AdminInfraStack r ident props = Inr s \<Longrightarrow>
     publicReadAccess (stackBucket s) = publicAccess props
     \<and> map principals (resourcePolicy (stackBucket s)) =
         (if publicAccess props then [[AnyPrincipal]] else [])
         @ [[CanonicalUserPrincipal [Tok (OaiS3CanonicalUserId ''OAI'')]]]"
  by (auto simp: v1_defs shared_defs Let_def split: sum.splits)

lemma AdminInfraStack_v2_bucket:
  "publicReadAccess (stackBucket (AdminInfraStack_v2 ident props)) = publicAccess props
   \<and> map principals (resourcePolicy (stackBucket (AdminInfraStack_v2 ident props))) =
       (if publicAccess props then [[AnyPrincipal]] else [])
       @ [[CanonicalUserPrincipal [Tok (OaiS3CanonicalUserId ''OAI'')]]]"
  by (simp add: v2_defs shared_defs Let_def)

text \<open>
  C1, as the specification states it, says that the web bucket allows only the origin
  access identity to read its objects, whatever the \<open>publicAccess\<close> flag of the
  configuration is. The bucket is declared with \<open>publicReadAccess\<close> set from that flag.
  The sample configuration sets the flag, and the policy of its bucket allows any
  principal to read the objects, in both versions.
\<close>

theorem web_bucket_public_counterexample:
  "AdminInfraStack sampleDotenv ''CrmAdminDev'' sampleEnvConfig = Inr sampleStack
   \<and> publicReadAccess (stackBucket sampleStack)
   \<and> map principals (resourcePolicy (stackBucket sampleStack)) =
       [[AnyPrincipal], [CanonicalUserPrincipal [Tok (OaiS3CanonicalUserId ''OAI'')]]]
   \<and> publicReadAccess (stackBucket (AdminInfraStack_v2 ''CrmAdminDev'' sampleEnvConfig))
   \<and> map principals
         (resourcePolicy (stackBucket (AdminInfraStack_v2 ''CrmAdminDev'' sampleEnvConfig))) =
       [[AnyPrincipal], [CanonicalUserPrincipal [Tok (OaiS3CanonicalUserId ''OAI'')]]]"
proof -
  have flag: "publicAccess sampleEnvConfig"
    by (simp add: sampleEnvConfig_def)
  show ?thesis
    using sample_run AdminInfraStack_bucket [OF sample_run]
      AdminInfraStack_v2_bucket [of "''CrmAdminDev''" sampleEnvConfig] flag
    by simp
qed

text \<open>
  C1, as the code has it. In both versions the resource policy of the web bucket allows
  \<^verbatim>\<open>s3:GetObject\<close> on the objects of the bucket to the canonical user of the origin
  access identity of the stack, which is the identity that the origin of the
  distribution is created with. When the \<open>publicAccess\<close> flag of the props is true, and
  only then, the bucket is declared publicly readable and its policy has a statement
  before that one, which allows the same action on the same objects to any principal.
  So the policy allows the origin access identity alone to read the objects exactly when
  the flag is false.
\<close>

theorem web_bucket_read_access:
  "(AdminInfraStack r ident props = Inr s \<longrightarrow>
      resourcePolicy (stackBucket s) =
        (if publicAccess props
         then [\<lparr> actions = [''s3:GetObject''],
                 resources = [[Tok (BucketArnForObjects (bucketNodeId (stackBucket s)) ''*'')]],
                 principals = [AnyPrincipal] \<rparr>]
         else [])
        @ [\<lparr> actions = [''s3:GetObject''],
             resources = [[Tok (BucketArnForObjects (bucketNodeId (stackBucket s)) ''*'')]],
             principals =
               [CanonicalUserPrincipal [Tok (OaiS3CanonicalUserId (oaiNodeId (stackOai s)))]] \<rparr>]
      \<and> originAccessIdentity (origin (defaultBehavior (stackDistribution s)))
          = OaiRef (oaiNodeId (stackOai s))
      \<and> publicReadAccess (stackBucket s) = publicAccess props)
   \<and> (let s2 = AdminInfraStack_v2 ident props in
      resourcePolicy (stackBucket s2) =
        (if publicAccess props
         then [\<lparr> actions = [''s3:GetObject''],
                 resources = [[Tok (BucketArnForObjects (bucketNodeId (stackBucket s2)) ''*'')]],
                 principals = [AnyPrincipal] \<rparr>]
         else [])
        @ [\<lparr> actions = [''s3:GetObject''],
             resources = [[Tok (BucketArnForObjects (bucketNodeId (stackBucket s2)) ''*'')]],
             principals =
               [CanonicalUserPrincipal [Tok (OaiS3CanonicalUserId (oaiNodeId (stackOai s2)))]] \<rparr>]
      \<and> originAccessIdentity (origin (defaultBehavior (stackDistribution s2)))
          = OaiRef (oaiNodeId (stackOai s2))
      \<and> publicReadAccess (stackBucket s2) = publicAccess props)"
  by (auto simp: v1_defs v2_defs shared_defs Let_def split: sum.splits)

theorem web_bucket_read_access_witness:
  "AdminInfraStack sampleDotenv ''CrmAdminDev'' sampleEnvConfig = Inr sampleStack
   \<and> publicAccess sampleEnvConfig
   \<and> map principals (resourcePolicy (stackBucket sampleStack)) =
       [[AnyPrincipal],
        [CanonicalUserPrincipal [Tok (OaiS3CanonicalUserId (oaiNodeId (stackOai sampleStack)))]]]
   \<and> publicReadAccess (stackBucket sampleStack)
   \<and> \<not> publicAccess sampleProdConfig
   \<and> map principals
         (resourcePolicy (stackBucket (AdminInfraStack_v2 ''CrmAdminProd'' sampleProdConfig))) =
       [[CanonicalUserPrincipal
           [Tok (OaiS3CanonicalUserId
                   (oaiNodeId (stackOai (AdminInfraStack_v2 ''CrmAdminProd'' sampleProdConfig))))]]]
   \<and> \<not> publicReadAccess (stackBucket (AdminInfraStack_v2 ''CrmAdminProd'' sampleProdConfig))"
proof -
  have dev: "publicAccess sampleEnvConfig"
    by (simp add: sampleEnvConfig_def)
  have prod: "\<not> publicAccess sampleProdConfig"
    by (simp add: sampleProdConfig_def sampleEnvConfig_def)
  show ?thesis
    using web_bucket_read_access
        [of sampleDotenv "''CrmAdminDev''" sampleEnvConfig sampleStack]
      web_bucket_read_access
        [of sampleDotenv "''CrmAdminProd''" sampleProdConfig sampleStack]
      sample_run dev prod
    by (simp add: Let_def)
qed

subsection \<open>The two versions side by side\<close>

lemmas view_defs = specView_def specViewProject_def specViewPipeline_def unnameStage_def
  unnameOutput_def unnameStatement_def unnameString_def designView_def designViewProject_def
  designViewBuildSpec_def

lemma specView_differs:
  assumes "AdminInfraStack r ident props = Inr s1"
  shows "unnameJson (buildSpec (stackProject s1))
           \<noteq> unnameJson (buildSpec (stackProject (AdminInfraStack_v2 ident props)))"
    and "map unnameStatement (rolePolicy (stackProject s1))
           \<noteq> map unnameStatement (rolePolicy (stackProject (AdminInfraStack_v2 ident props)))"
    and "specView s1 \<noteq> specView (AdminInfraStack_v2 ident props)"
proof -
  show a: "unnameJson (buildSpec (stackProject s1))
           \<noteq> unnameJson (buildSpec (stackProject (AdminInfraStack_v2 ident props)))"
    using assms by (auto simp: v1_defs v2_defs shared_defs Let_def split: sum.splits)
  show "map unnameStatement (rolePolicy (stackProject s1))
           \<noteq> map unnameStatement (rolePolicy (stackProject (AdminInfraStack_v2 ident props)))"
    using assms by (auto simp: v1_defs v2_defs shared_defs Let_def split: sum.splits)
  have "buildSpec (stackProject (specView s)) = unnameJson (buildSpec (stackProject s))" for s
    by (simp add: specView_def specViewProject_def)
  with a show "specView s1 \<noteq> specView (AdminInfraStack_v2 ident props)"
    by metis
qed

text \<open>
  C2, as the specification states it, says that the two versions describe the same
  deployment up to naming and three settings, with the same build specification and the
  same role policy. On the sample inputs the two descriptions differ under \<open>specView\<close>,
  and so do their build specifications and their role policies.
\<close>

theorem versions_differ_counterexample:
  "AdminInfraStack sampleDotenv ''CrmAdminDev'' sampleEnvConfig = Inr sampleStack
   \<and> specView sampleStack \<noteq> specView (AdminInfraStack_v2 ''CrmAdminDev'' sampleEnvConfig)
   \<and> unnameJson (buildSpec (stackProject sampleStack))
       \<noteq> unnameJson (buildSpec (stackProject (AdminInfraStack_v2 ''CrmAdminDev'' sampleEnvConfig)))
   \<and> map unnameStatement (rolePolicy (stackProject sampleStack))
       \<noteq> map unnameStatement
            (rolePolicy (stackProject (AdminInfraStack_v2 ''CrmAdminDev'' sampleEnvConfig)))"
  using sample_run specView_differs [OF sample_run] by simp

text \<open>
  C2, as the code has it. Whenever the first version yields a stack, the two versions
  describe the same deployment up to naming and four settings: the build image, the
  artifact bucket of the pipeline, the environment variables of the build project, and
  the \<^verbatim>\<open>runtime-versions\<close> entry of the install phase, which only the first version
  has. The comparison leaves aside the declaration of the artifacts in the build
  specification and the statement for \<^verbatim>\<open>cloudfront:CreateInvalidation\<close> in the role
  policy.
\<close>

theorem versions_agree_by_design:
  "AdminInfraStack r ident props = Inr s1 \<longrightarrow>
     (let s2 = AdminInfraStack_v2 ident props in
        designView s1 = designView s2
      \<and> buildImage (environment (stackProject s1)) = AMAZON_LINUX_2_5
      \<and> buildImage (environment (stackProject s2)) = STANDARD_5_0
      \<and> artifactBucket (stackPipeline s1) = None
      \<and> artifactBucket (stackPipeline s2)
          = Some (FromBucketName ''pipeline-existing-artifact-bucket'' (pipelineBucket props))
      \<and> (\<exists>vars. loadEnvFile r = Inr vars
            \<and> environmentVariables (environment (stackProject s1)) = Some vars)
      \<and> environmentVariables (environment (stackProject s2)) = None
      \<and> jsonAt [''phases'', ''install'', ''runtime-versions''] (buildSpec (stackProject s1))
          = Some (JObject [(''nodejs'', str ''latest'')])
      \<and> jsonAt [''phases'', ''install'', ''runtime-versions''] (buildSpec (stackProject s2))
          = None)"
proof
  assume run: "AdminInfraStack r ident props = Inr s1"
  have view: "designView s1 = designView (AdminInfraStack_v2 ident props)"
    using run
    by (auto simp: v1_defs v2_defs shared_defs Let_def view_defs split: sum.splits)
  have settings1: "buildImage (environment (stackProject s1)) = AMAZON_LINUX_2_5
      \<and> artifactBucket (stackPipeline s1) = None
      \<and> (\<exists>vars. loadEnvFile r = Inr vars
            \<and> environmentVariables (environment (stackProject s1)) = Some vars)
      \<and> jsonAt [''phases'', ''install'', ''runtime-versions''] (buildSpec (stackProject s1))
          = Some (JObject [(''nodejs'', str ''latest'')])"
    using run by (auto simp: v1_defs shared_defs Let_def split: sum.splits)
  have settings2: "buildImage (environment (stackProject (AdminInfraStack_v2 ident props)))
          = STANDARD_5_0
      \<and> artifactBucket (stackPipeline (AdminInfraStack_v2 ident props))
          = Some (FromBucketName ''pipeline-existing-artifact-bucket'' (pipelineBucket props))
      \<and> environmentVariables (environment (stackProject (AdminInfraStack_v2 ident props)))
          = None
      \<and> jsonAt [''phases'', ''install'', ''runtime-versions'']
            (buildSpec (stackProject (AdminInfraStack_v2 ident props)))
          = None"
    by (simp add: v2_defs shared_defs Let_def)
  from view settings1 settings2 show
    "let s2 = AdminInfraStack_v2 ident props in
        designView s1 = designView s2
      \<and> buildImage (environment (stackProject s1)) = AMAZON_LINUX_2_5
      \<and> buildImage (environment (stackProject s2)) = STANDARD_5_0
      \<and> artifactBucket (stackPipeline s1) = None
      \<and> artifactBucket (stackPipeline s2)
          = Some (FromBucketName ''pipeline-existing-artifact-bucket'' (pipelineBucket props))
      \<and> (\<exists>vars. loadEnvFile r = Inr vars
            \<and> environmentVariables (environment (stackProject s1)) = Some vars)
      \<and> environmentVariables (environment (stackProject s2)) = None
      \<and> jsonAt [''phases'', ''install'', ''runtime-versions''] (buildSpec (stackProject s1))
          = Some (JObject [(''nodejs'', str ''latest'')])
      \<and> jsonAt [''phases'', ''install'', ''runtime-versions''] (buildSpec (stackProject s2))
          = None"
    unfolding Let_def by blast
qed

theorem versions_agree_by_design_witness:
  "AdminInfraStack sampleDotenv ''CrmAdminDev'' sampleEnvConfig = Inr sampleStack
   \<and> designView sampleStack = designView (AdminInfraStack_v2 ''CrmAdminDev'' sampleEnvConfig)
   \<and> buildImage (environment (stackProject sampleStack)) = AMAZON_LINUX_2_5
   \<and> buildImage (environment (stackProject (AdminInfraStack_v2 ''CrmAdminDev'' sampleEnvConfig)))
       = STANDARD_5_0
   \<and> artifactBucket (stackPipeline (AdminInfraStack_v2 ''CrmAdminDev'' sampleEnvConfig))
       = Some (FromBucketName ''pipeline-existing-artifact-bucket'' ''crm-admin-artifacts'')"
  using versions_agree_by_design
    [of sampleDotenv "''CrmAdminDev''" sampleEnvConfig sampleStack] sample_run
  by (simp add: Let_def sampleEnvConfig_def)

end
